theory Spec2Isabelle
  imports Main
begin

section \<open>Python strings\<close>

text \<open>
  A Python \<^verbatim>\<open>str\<close> is a sequence of Unicode code points; a code point is a natural
  number here, so that \<^verbatim>\<open>strip\<close> sees the same characters as the interpreter.
  \<open>str\<close> writes an ASCII literal.
\<close>

type_synonym pystr = "nat list"

definition str :: "string \<Rightarrow> pystr" where
  "str s = map of_char s"

text \<open>
  \<^verbatim>\<open>str.isspace\<close> on one character: the characters that \<^verbatim>\<open>str.strip()\<close>, called
  with no argument, removes (U+0009..U+000D, U+001C..U+0020, U+0085, U+00A0, U+1680,
  U+2000..U+200A, U+2028, U+2029, U+202F, U+205F, U+3000).
\<close>

definition isspace :: "nat \<Rightarrow> bool" where
  "isspace c \<longleftrightarrow>
     (9 \<le> c \<and> c \<le> 13) \<or> (28 \<le> c \<and> c \<le> 32) \<or> c = 133 \<or> c = 160 \<or> c = 5760 \<or>
     (8192 \<le> c \<and> c \<le> 8202) \<or> c = 8232 \<or> c = 8233 \<or> c = 8239 \<or> c = 8287 \<or>
     c = 12288"

definition strip :: "pystr \<Rightarrow> pystr" where
  "strip s = rev (dropWhile isspace (rev (dropWhile isspace s)))"


section \<open>Path normalisation (\<^verbatim>\<open>os.path.normpath\<close>)\<close>

text \<open>
  \<^verbatim>\<open>s.split(sep)\<close> for a one-character separator, \<^verbatim>\<open>sep.join(xs)\<close>,
  \<^verbatim>\<open>s.startswith(p)\<close>, \<^verbatim>\<open>s.endswith(p)\<close> and \<^verbatim>\<open>s.find(c, start)\<close>.
\<close>

fun split :: "nat \<Rightarrow> pystr \<Rightarrow> pystr list" where
  "split sep [] = [[]]"
| "split sep (c # cs) =
     (if c = sep then [] # split sep cs
      else (case split sep cs of [] \<Rightarrow> [[c]] | w # ws \<Rightarrow> (c # w) # ws))"

fun join :: "pystr \<Rightarrow> pystr list \<Rightarrow> pystr" where
  "join sep [] = []"
| "join sep [x] = x"
| "join sep (x # y # ys) = x @ sep @ join sep (y # ys)"

definition startswith :: "pystr \<Rightarrow> pystr \<Rightarrow> bool" where
  "startswith s p \<longleftrightarrow> take (length p) s = p"

definition endswith :: "pystr \<Rightarrow> pystr \<Rightarrow> bool" where
  "endswith s p \<longleftrightarrow> drop (length s - length p) s = p"

definition find :: "pystr \<Rightarrow> nat \<Rightarrow> nat \<Rightarrow> nat option" where
  "find s c start =
     (case filter (\<lambda>i. s ! i = c) [start..<length s] of [] \<Rightarrow> None | i # _ \<Rightarrow> Some i)"

definition slash :: nat where "slash = 47"
definition backslash :: nat where "backslash = 92"
definition colon :: nat where "colon = 58"
definition curdir :: pystr where "curdir = [46]"
definition pardir :: pystr where "pardir = [46, 46]"

text \<open>
  \<^verbatim>\<open>posixpath.normpath\<close>, the binding of \<^verbatim>\<open>os.path.normpath\<close> on every host that
  is not Windows. \<open>posix_comp\<close> is the body of its loop over the components;
  \<open>initial_slashes\<close> is 0, 1 or 2.
\<close>

definition posix_comp :: "nat \<Rightarrow> pystr list \<Rightarrow> pystr \<Rightarrow> pystr list" where
  "posix_comp initial_slashes new_comps comp' =
     (if comp' = [] \<or> comp' = curdir then new_comps
      else if comp' \<noteq> pardir \<or> (initial_slashes = 0 \<and> new_comps = []) \<or>
              (new_comps \<noteq> [] \<and> last new_comps = pardir)
           then new_comps @ [comp']
      else if new_comps \<noteq> [] then butlast new_comps
      else new_comps)"

definition posixpath_normpath :: "pystr \<Rightarrow> pystr" where
  "posixpath_normpath path =
     (if path = [] then curdir
      else
        let initial_slashes =
              (if startswith path [slash]
               then (if startswith path [slash, slash] \<and>
                        \<not> startswith path [slash, slash, slash] then 2 else 1)
               else (0::nat));
            comps = foldl (posix_comp initial_slashes) [] (split slash path);
            path1 = join [slash] comps;
            path2 = (if initial_slashes \<noteq> 0
                     then replicate initial_slashes slash @ path1 else path1)
        in if path2 = [] then curdir else path2)"

text \<open>
  \<^verbatim>\<open>ntpath.normpath\<close> with \<^verbatim>\<open>ntpath.splitdrive\<close> (CPython 3.6 to 3.10), the binding
  on Windows. \<open>nt_comps\<close> is the \<^verbatim>\<open>while i < len(comps)\<close> loop, which deletes
  components in place.
\<close>

definition replace_altsep :: "pystr \<Rightarrow> pystr" where
  "replace_altsep p = map (\<lambda>c. if c = slash then backslash else c) p"

definition splitdrive :: "pystr \<Rightarrow> pystr \<times> pystr" where
  "splitdrive p =
     (if length p \<ge> 2 then
        let normp = replace_altsep p in
        if take 2 normp = [backslash, backslash] \<and> take 1 (drop 2 normp) \<noteq> [backslash] then
          (case find normp backslash 2 of
             None \<Rightarrow> ([], p)
           | Some index \<Rightarrow>
               (case find normp backslash (index + 1) of
                  None \<Rightarrow> (p, [])
                | Some index2 \<Rightarrow>
                    if index2 = index + 1 then ([], p)
                    else (take index2 p, drop index2 p)))
        else if take 1 (drop 1 normp) = [colon] then (take 2 p, drop 2 p)
        else ([], p)
      else ([], p))"

function nt_comps :: "pystr \<Rightarrow> nat \<Rightarrow> pystr list \<Rightarrow> pystr list" where
  "nt_comps prefix i comps =
     (if i < length comps then
        (if comps ! i = [] \<or> comps ! i = curdir
         then nt_comps prefix i (take i comps @ drop (i + 1) comps)
         else if comps ! i = pardir then
           (if i > 0 \<and> comps ! (i - 1) \<noteq> pardir
            then nt_comps prefix (i - 1) (take (i - 1) comps @ drop (i + 1) comps)
            else if i = 0 \<and> endswith prefix [backslash]
            then nt_comps prefix i (take i comps @ drop (i + 1) comps)
            else nt_comps prefix (i + 1) comps)
         else nt_comps prefix (i + 1) comps)
      else comps)"
  by pat_completeness auto
termination
  by (relation "measure (\<lambda>(prefix, i, comps). 2 * length comps - i)") auto

declare nt_comps.simps [simp del]

definition ntpath_normpath :: "pystr \<Rightarrow> pystr" where
  "ntpath_normpath path0 =
     (if startswith path0 [backslash, backslash, 46, backslash] \<or>
         startswith path0 [backslash, backslash, 63, backslash]
      then path0
      else
        let path1 = replace_altsep path0;
            (prefix0, path2) = splitdrive path1;
            (prefix, path3) =
              (if startswith path2 [backslash]
               then (prefix0 @ [backslash], dropWhile (\<lambda>c. c = backslash) path2)
               else (prefix0, path2));
            comps0 = nt_comps prefix 0 (split backslash path3);
            comps = (if prefix = [] \<and> comps0 = [] then comps0 @ [curdir] else comps0)
        in prefix @ join [backslash] comps)"

definition os_path_normpath :: "bool \<Rightarrow> pystr \<Rightarrow> pystr" where
  "os_path_normpath is_win path =
     (if is_win then ntpath_normpath path else posixpath_normpath path)"

subsection \<open>The parts of a path\<close>



definition nt_device_path :: "pystr \<Rightarrow> bool" where
  "nt_device_path path \<longleftrightarrow>
     startswith path [backslash, backslash, 46, backslash] \<or>
     startswith path [backslash, backslash, 63, backslash]"




section \<open>Configuration, exceptions and widgets\<close>

text \<open>
  \<^verbatim>\<open>config.setting\<close>, restricted to the options this page declares in \<^verbatim>\<open>options\<close>:
  a \<^verbatim>\<open>BoolOption\<close> holds a \<open>bool\<close>, a \<^verbatim>\<open>TextOption\<close> a string, the
  \<^verbatim>\<open>ListOption\<close> a list of script items of a type \<open>'s\<close> that the page never looks
  into.
\<close>

record 's setting =
  windows_compatibility :: bool
  ascii_filenames :: bool
  rename_files :: bool
  file_naming_format :: pystr
  move_files :: bool
  move_files_to :: pystr
  move_additional_files :: bool
  move_additional_files_pattern :: pystr
  delete_empty_dirs :: bool
  file_naming_scripts :: "'s list"
  selected_file_naming_script_id :: pystr

text \<open>
  The two menu actions of the main window that \<^verbatim>\<open>save\<close> checks or unchecks.
\<close>

record window =
  enable_renaming_action :: bool
  enable_moving_action :: bool

text \<open>
  The exceptions the page raises, each with its title and its message (\<^verbatim>\<open>info\<close>).
\<close>

datatype exn =
  ScriptCheckError pystr pystr
| OptionsCheckError pystr pystr

text \<open>
  The override context that \<^verbatim>\<open>update_examples_from_local\<close> builds for the preview.
\<close>

record override =
  o_ascii_filenames :: bool
  o_move_files :: bool
  o_move_files_to :: pystr
  o_rename_files :: bool
  o_windows_compatibility :: bool

text \<open>
  A combo box: its items (text and user data), the current index (\<open>-1\<close> for none) and
  whether \<^verbatim>\<open>blockSignals(True)\<close> is in force. Each operation returns the widget and
  whether it emitted \<^verbatim>\<open>currentIndexChanged\<close>: a widget emits when its current index
  changes and its signals are not blocked.
\<close>

record 's combobox =
  cb_items :: "(pystr \<times> 's) list"
  cb_currentIndex :: int
  cb_signalsBlocked :: bool

definition cb_blockSignals :: "bool \<Rightarrow> 's combobox \<Rightarrow> 's combobox" where
  "cb_blockSignals b cb = cb\<lparr>cb_signalsBlocked := b\<rparr>"

definition cb_clear :: "'s combobox \<Rightarrow> 's combobox \<times> bool" where
  "cb_clear cb =
     (cb\<lparr>cb_items := [], cb_currentIndex := - 1\<rparr>,
      cb_currentIndex cb \<noteq> - 1 \<and> \<not> cb_signalsBlocked cb)"

definition cb_addItem :: "pystr \<Rightarrow> 's \<Rightarrow> 's combobox \<Rightarrow> 's combobox \<times> bool" where
  "cb_addItem text' userData cb =
     (let index = (if cb_items cb = [] then 0 else cb_currentIndex cb)
      in (cb\<lparr>cb_items := cb_items cb @ [(text', userData)], cb_currentIndex := index\<rparr>,
          index \<noteq> cb_currentIndex cb \<and> \<not> cb_signalsBlocked cb))"

definition cb_setCurrentIndex :: "int \<Rightarrow> 's combobox \<Rightarrow> 's combobox \<times> bool" where
  "cb_setCurrentIndex i cb =
     (let index = (if 0 \<le> i \<and> i < int (length (cb_items cb)) then i else - 1)
      in (cb\<lparr>cb_currentIndex := index\<rparr>,
          index \<noteq> cb_currentIndex cb \<and> \<not> cb_signalsBlocked cb))"

text \<open>
  A list widget: its rows, the current row (\<open>-1\<close> for none) and the signal block.
  \<open>lw_setCurrentRow\<close> returns whether \<^verbatim>\<open>itemSelectionChanged\<close> was emitted.
\<close>

record listwidget =
  lw_items :: "pystr list"
  lw_currentRow :: int
  lw_signalsBlocked :: bool

definition lw_blockSignals :: "bool \<Rightarrow> listwidget \<Rightarrow> listwidget" where
  "lw_blockSignals b lw = lw\<lparr>lw_signalsBlocked := b\<rparr>"

definition lw_setCurrentRow :: "int \<Rightarrow> listwidget \<Rightarrow> listwidget \<times> bool" where
  "lw_setCurrentRow r lw =
     (let row = (if 0 \<le> r \<and> r < int (length (lw_items lw)) then r else - 1)
      in (lw\<lparr>lw_currentRow := row\<rparr>,
          row \<noteq> lw_currentRow lw \<and> \<not> lw_signalsBlocked lw))"

text \<open>
  The signals of the script editor dialog that the page connects to a slot, and the
  signals of the page's own widgets that it connects to a slot and that a call of the
  page can make a widget emit.
\<close>

datatype editor_signal = signal_save | signal_update | signal_selection_changed

datatype ui_signal =
  naming_script_selector_currentIndexChanged
| example_filename_after_itemSelectionChanged
| example_filename_before_itemSelectionChanged


section \<open>The page and what it calls\<close>

text \<open>
  What the page calls and this file does not define. \<open>'e\<close> is the state of the script
  editor dialog together with the \<^verbatim>\<open>ScriptEditorExamples\<close> object it shares with the
  page. \<open>ScriptParser_eval\<close> is \<^verbatim>\<open>ScriptParser().eval\<close>: \<open>Inl m\<close> when it raises an
  exception \<open>e\<close> with \<^verbatim>\<open>str(e)\<close> equal to \<open>m\<close>, \<open>Inr r\<close> when it returns \<open>r\<close>.
  \<open>gettext\<close> is the translation function \<^verbatim>\<open>_\<close>. \<open>enabledSlot\<close> gives the argument
  that \<^verbatim>\<open>enabledSlot(func, state)\<close> passes to \<open>func\<close>. A method of the editor returns
  the editor's new state and the signals it emitted, in order.
  \<^verbatim>\<open>update_example_listboxes\<close> returns the two list widgets it was given, as it
  leaves them, and the signals they emitted while it filled them.
\<close>

record ('e, 's) env =
  IS_WIN :: bool
  gettext :: "pystr \<Rightarrow> pystr"
  ScriptParser_eval :: "pystr \<Rightarrow> pystr + pystr"
  enabledSlot :: "bool \<Rightarrow> bool"
  editor_load :: "'s setting \<Rightarrow> 'e \<Rightarrow> 'e \<times> editor_signal list"
  editor_display_examples :: "'e \<Rightarrow> 'e \<times> editor_signal list"
  editor_get_script :: "'e \<Rightarrow> pystr"
  editor_naming_scripts :: "'e \<Rightarrow> 's list"
  editor_selected_script_id :: "'e \<Rightarrow> pystr"
  editor_preset_naming_scripts :: "'e \<Rightarrow> 's combobox"
  editor_preset_setCurrentIndex :: "int \<Rightarrow> 'e \<Rightarrow> 'e \<times> editor_signal list"
  editor_update_example_listboxes ::
    "listwidget \<Rightarrow> listwidget \<Rightarrow> (pystr \<times> pystr) list \<Rightarrow>
       listwidget \<times> listwidget \<times> ui_signal list"
  examples_update_examples :: "override \<Rightarrow> 'e \<Rightarrow> 'e"
  examples_get_examples :: "'e \<Rightarrow> (pystr \<times> pystr) list"

text \<open>
  The page: its two attributes, the state of each widget of \<^verbatim>\<open>self.ui\<close> that a
  method reads or writes, and the editor. \<open>emitted\<close> collects, in order, the signals
  that the page's own widgets emitted towards a slot of the page and whose slot has not
  run yet: a slot runs when \<open>deliver\<close> (below) takes its signal out.
\<close>

record ('e, 's) page =
  script_text :: pystr
  current_row :: int
  ui_windows_compatibility_checked :: bool
  ui_windows_compatibility_enabled :: bool
  ui_ascii_filenames_checked :: bool
  ui_ascii_filenames_enabled :: bool
  ui_rename_files_checked :: bool
  ui_move_files_checked :: bool
  ui_move_files_to_text :: pystr
  ui_move_files_to_cursorPosition :: nat
  ui_move_files_to_enabled :: bool
  ui_move_files_to_browse_enabled :: bool
  ui_move_additional_files_checked :: bool
  ui_move_additional_files_enabled :: bool
  ui_move_additional_files_pattern_text :: pystr
  ui_move_additional_files_pattern_enabled :: bool
  ui_delete_empty_dirs_checked :: bool
  ui_delete_empty_dirs_enabled :: bool
  ui_open_script_editor_enabled :: bool
  ui_naming_script_selector :: "'s combobox"
  ui_example_filename_before :: listwidget
  ui_example_filename_after :: listwidget
  script_editor_page :: 'e
  emitted :: "ui_signal list"

definition emit :: "bool \<Rightarrow> ui_signal \<Rightarrow> ('e, 's) page \<Rightarrow> ('e, 's) page" where
  "emit fired sig st = (if fired then st\<lparr>emitted := emitted st @ [sig]\<rparr> else st)"

text \<open>
  A call on \<^verbatim>\<open>self.ui.naming_script_selector\<close>: the widget changes, and a
  \<^verbatim>\<open>currentIndexChanged\<close> it emits is recorded.
\<close>

definition on_selector ::
  "('s combobox \<Rightarrow> 's combobox \<times> bool) \<Rightarrow> ('e, 's) page \<Rightarrow> ('e, 's) page" where
  "on_selector f st =
     (let (cb, fired) = f (ui_naming_script_selector st)
      in emit fired naming_script_selector_currentIndexChanged
           (st\<lparr>ui_naming_script_selector := cb\<rparr>))"

definition update_selector_from_editor ::
  "('e, 's) env \<Rightarrow> ('e, 's) page \<Rightarrow> ('e, 's) page" where
  "update_selector_from_editor env st =
     (let preset = editor_preset_naming_scripts env (script_editor_page st);
          st1 = on_selector (\<lambda>cb. (cb_blockSignals True cb, False)) st;
          st2 = on_selector cb_clear st1;
          st3 = fold (\<lambda>i. on_selector
                   (cb_addItem (fst (cb_items preset ! i)) (snd (cb_items preset ! i))))
                  [0..<length (cb_items preset)] st2;
          st4 = on_selector (cb_setCurrentIndex (cb_currentIndex preset)) st3
      in on_selector (\<lambda>cb. (cb_blockSignals False cb, False)) st4)"

text \<open>
  \<^verbatim>\<open>display_examples\<close>. Of the signals reported for the two lists, only their own
  \<^verbatim>\<open>itemSelectionChanged\<close> can be theirs.
\<close>

definition list_signals :: "ui_signal list \<Rightarrow> ui_signal list" where
  "list_signals sigs =
     filter (\<lambda>sig. sig = example_filename_before_itemSelectionChanged \<or>
                   sig = example_filename_after_itemSelectionChanged) sigs"

definition display_examples :: "('e, 's) env \<Rightarrow> ('e, 's) page \<Rightarrow> ('e, 's) page" where
  "display_examples env st =
     (let st1 = st\<lparr>current_row := - 1\<rparr>;
          examples = examples_get_examples env (script_editor_page st1);
          (before, after, sigs) =
            editor_update_example_listboxes env
              (ui_example_filename_before st1) (ui_example_filename_after st1) examples
      in st1\<lparr>ui_example_filename_before := before, ui_example_filename_after := after,
             emitted := emitted st1 @ list_signals sigs\<rparr>)"

definition save_from_editor :: "('e, 's) env \<Rightarrow> ('e, 's) page \<Rightarrow> ('e, 's) page" where
  "save_from_editor env st =
     st\<lparr>script_text := editor_get_script env (script_editor_page st)\<rparr>"

definition update_from_editor :: "('e, 's) env \<Rightarrow> ('e, 's) page \<Rightarrow> ('e, 's) page" where
  "update_from_editor env st = display_examples env st"

text \<open>
  The connections made in \<^verbatim>\<open>__init__\<close> between the editor's signals and the page's
  slots, and a call of a method of the editor: the editor changes and the slots of the
  signals it emitted run, in order, on the editor as the method leaves it.
\<close>

fun editor_slot ::
  "('e, 's) env \<Rightarrow> editor_signal \<Rightarrow> ('e, 's) page \<Rightarrow> ('e, 's) page" where
  "editor_slot env signal_save st = save_from_editor env st"
| "editor_slot env signal_update st = update_from_editor env st"
| "editor_slot env signal_selection_changed st = update_selector_from_editor env st"

definition on_editor ::
  "('e, 's) env \<Rightarrow> ('e \<Rightarrow> 'e \<times> editor_signal list) \<Rightarrow> ('e, 's) page \<Rightarrow> ('e, 's) page" where
  "on_editor env f st =
     (let (e, sigs) = f (script_editor_page st)
      in fold (editor_slot env) sigs (st\<lparr>script_editor_page := e\<rparr>))"

definition update_selector_in_editor ::
  "('e, 's) env \<Rightarrow> ('e, 's) page \<Rightarrow> ('e, 's) page" where
  "update_selector_in_editor env st =
     on_editor env
       (editor_preset_setCurrentIndex env (cb_currentIndex (ui_naming_script_selector st))) st"

text \<open>
  Modelled from the spec: \<^verbatim>\<open>synchronize_selected_example_lines\<close> of the script editor
  dialog, defined in \<^verbatim>\<open>picard/ui/scripteditor.py\<close>. The spec (4.3) has a selection in one list
  "instruct" the other list "to select the same index", where "setting a view's
  selection programmatically must not itself re-fire the user-selected event": the
  target takes the source's current row while its signals are blocked. The first
  argument is the page's \<^verbatim>\<open>current_row\<close>, passed by value.
\<close>

definition synchronize_selected_example_lines ::
  "int \<Rightarrow> listwidget \<Rightarrow> listwidget \<Rightarrow> listwidget \<times> bool" where
  "synchronize_selected_example_lines current_row' source target =
     (let (target1, fired) =
            lw_setCurrentRow (lw_currentRow source) (lw_blockSignals True target)
      in (lw_blockSignals False target1, fired))"

definition match_after_to_before :: "('e, 's) env \<Rightarrow> ('e, 's) page \<Rightarrow> ('e, 's) page" where
  "match_after_to_before env st =
     (let (after, fired) =
            synchronize_selected_example_lines (current_row st)
              (ui_example_filename_before st) (ui_example_filename_after st)
      in emit fired example_filename_after_itemSelectionChanged
           (st\<lparr>ui_example_filename_after := after\<rparr>))"

definition match_before_to_after :: "('e, 's) env \<Rightarrow> ('e, 's) page \<Rightarrow> ('e, 's) page" where
  "match_before_to_after env st =
     (let (before, fired) =
            synchronize_selected_example_lines (current_row st)
              (ui_example_filename_after st) (ui_example_filename_before st)
      in emit fired example_filename_before_itemSelectionChanged
           (st\<lparr>ui_example_filename_before := before\<rparr>))"

text \<open>
  The connections made in \<^verbatim>\<open>__init__\<close> for the page's own widgets, and the delivery
  of the signals in \<open>emitted\<close>: each is taken out and its slot runs, which may emit
  again; the count is the number of slots run. A chain of slots that never ends uses up
  any \<open>fuel\<close> and gives \<open>None\<close>.
\<close>

fun ui_slot :: "('e, 's) env \<Rightarrow> ui_signal \<Rightarrow> ('e, 's) page \<Rightarrow> ('e, 's) page" where
  "ui_slot env naming_script_selector_currentIndexChanged st =
     update_selector_in_editor env st"
| "ui_slot env example_filename_after_itemSelectionChanged st =
     match_before_to_after env st"
| "ui_slot env example_filename_before_itemSelectionChanged st =
     match_after_to_before env st"

fun deliver ::
  "nat \<Rightarrow> ('e, 's) env \<Rightarrow> ('e, 's) page \<Rightarrow> (('e, 's) page \<times> nat) option" where
  "deliver fuel env st =
     (case emitted st of
        [] \<Rightarrow> Some (st, 0)
      | sig # sigs \<Rightarrow>
          (case fuel of
             0 \<Rightarrow> None
           | Suc fuel' \<Rightarrow>
               map_option (\<lambda>(st', n). (st', Suc n))
                 (deliver fuel' env (ui_slot env sig (st\<lparr>emitted := sigs\<rparr>)))))"

declare deliver.simps [simp del]

text \<open>
  The slots of \<^verbatim>\<open>toggled\<close> of the two check boxes, and \<^verbatim>\<open>setChecked\<close> on them,
  which emits \<^verbatim>\<open>toggled\<close> when the state changes.
\<close>

definition toggle_file_naming_format ::
  "('e, 's) env \<Rightarrow> ('e, 's) page \<Rightarrow> ('e, 's) page" where
  "toggle_file_naming_format env st =
     (let active = (ui_move_files_checked st \<or> ui_rename_files_checked st);
          st1 = st\<lparr>ui_open_script_editor_enabled := active,
                   ui_ascii_filenames_enabled := active\<rparr>
      in if \<not> IS_WIN env then st1\<lparr>ui_windows_compatibility_enabled := active\<rparr> else st1)"

definition toggle_file_moving ::
  "('e, 's) env \<Rightarrow> bool \<Rightarrow> ('e, 's) page \<Rightarrow> ('e, 's) page" where
  "toggle_file_moving env state st =
     (toggle_file_naming_format env st)
       \<lparr>ui_delete_empty_dirs_enabled := state,
        ui_move_files_to_enabled := state,
        ui_move_files_to_browse_enabled := state,
        ui_move_additional_files_enabled := state,
        ui_move_additional_files_pattern_enabled := state\<rparr>"

definition toggle_file_renaming ::
  "('e, 's) env \<Rightarrow> bool \<Rightarrow> ('e, 's) page \<Rightarrow> ('e, 's) page" where
  "toggle_file_renaming env state st = toggle_file_naming_format env st"

definition rename_files_setChecked ::
  "('e, 's) env \<Rightarrow> bool \<Rightarrow> ('e, 's) page \<Rightarrow> ('e, 's) page" where
  "rename_files_setChecked env b st =
     (if ui_rename_files_checked st = b then st
      else toggle_file_renaming env (enabledSlot env b) (st\<lparr>ui_rename_files_checked := b\<rparr>))"

definition move_files_setChecked ::
  "('e, 's) env \<Rightarrow> bool \<Rightarrow> ('e, 's) page \<Rightarrow> ('e, 's) page" where
  "move_files_setChecked env b st =
     (if ui_move_files_checked st = b then st
      else toggle_file_moving env (enabledSlot env b) (st\<lparr>ui_move_files_checked := b\<rparr>))"

subsection \<open>Preview, load, check and save\<close>

definition local_override :: "('e, 's) env \<Rightarrow> ('e, 's) page \<Rightarrow> override" where
  "local_override env st =
     \<lparr>o_ascii_filenames = ui_ascii_filenames_checked st,
      o_move_files = ui_move_files_checked st,
      o_move_files_to = os_path_normpath (IS_WIN env) (ui_move_files_to_text st),
      o_rename_files = ui_rename_files_checked st,
      o_windows_compatibility = ui_windows_compatibility_checked st\<rparr>"

definition update_examples_from_local ::
  "('e, 's) env \<Rightarrow> ('e, 's) page \<Rightarrow> ('e, 's) page" where
  "update_examples_from_local env st =
     (let override = local_override env st;
          st1 = st\<lparr>script_editor_page :=
                     examples_update_examples env override (script_editor_page st)\<rparr>
      in on_editor env (editor_display_examples env) st1)"

definition load :: "('e, 's) env \<Rightarrow> 's setting \<Rightarrow> ('e, 's) page \<Rightarrow> ('e, 's) page" where
  "load env config st =
     (let st1 = (if IS_WIN env
                 then st\<lparr>ui_windows_compatibility_checked := True,
                         ui_windows_compatibility_enabled := False\<rparr>
                 else st\<lparr>ui_windows_compatibility_checked := windows_compatibility config\<rparr>);
          st2 = rename_files_setChecked env (rename_files config) st1;
          st3 = move_files_setChecked env (move_files config) st2;
          st4 = st3\<lparr>ui_ascii_filenames_checked := ascii_filenames config\<rparr>;
          st5 = st4\<lparr>script_text := file_naming_format config\<rparr>;
          st6 = st5\<lparr>ui_move_files_to_text := move_files_to config\<rparr>;
          st7 = st6\<lparr>ui_move_files_to_cursorPosition := 0\<rparr>;
          st8 = st7\<lparr>ui_move_additional_files_checked := move_additional_files config\<rparr>;
          st9 = st8\<lparr>ui_move_additional_files_pattern_text :=
                      move_additional_files_pattern config\<rparr>;
          st10 = st9\<lparr>ui_delete_empty_dirs_checked := delete_empty_dirs config\<rparr>;
          st11 = on_editor env (editor_load env config) st10
      in update_examples_from_local env st11)"

definition check_format :: "('e, 's) env \<Rightarrow> ('e, 's) page \<Rightarrow> exn + unit" where
  "check_format env st =
     (case ScriptParser_eval env (script_text st) of
        Inl e \<Rightarrow> Inl (ScriptCheckError [] e)
      | Inr _ \<Rightarrow>
          if ui_rename_files_checked st then
            if strip (script_text st) = []
            then Inl (ScriptCheckError []
                   (gettext env (str ''The file naming format must not be empty.'')))
            else Inr ()
          else Inr ())"

definition check :: "('e, 's) env \<Rightarrow> ('e, 's) page \<Rightarrow> exn + unit" where
  "check env st =
     (case check_format env st of
        Inl e \<Rightarrow> Inl e
      | Inr _ \<Rightarrow>
          if ui_move_files_checked st \<and> strip (ui_move_files_to_text st) = []
          then Inl (OptionsCheckError (gettext env (str ''Error''))
                 (gettext env (str ''The location to move files to must not be empty.'')))
          else Inr ())"

definition save ::
  "('e, 's) env \<Rightarrow> ('e, 's) page \<Rightarrow> 's setting \<Rightarrow> window \<Rightarrow> 's setting \<times> window" where
  "save env st config window =
     (let c1 = config\<lparr>windows_compatibility := ui_windows_compatibility_checked st\<rparr>;
          c2 = c1\<lparr>ascii_filenames := ui_ascii_filenames_checked st\<rparr>;
          c3 = c2\<lparr>rename_files := ui_rename_files_checked st\<rparr>;
          c4 = c3\<lparr>file_naming_format := strip (script_text st)\<rparr>;
          w1 = window\<lparr>enable_renaming_action := rename_files c4\<rparr>;
          c5 = c4\<lparr>move_files := ui_move_files_checked st\<rparr>;
          c6 = c5\<lparr>move_files_to :=
                    os_path_normpath (IS_WIN env) (ui_move_files_to_text st)\<rparr>;
          c7 = c6\<lparr>move_additional_files := ui_move_additional_files_checked st\<rparr>;
          c8 = c7\<lparr>move_additional_files_pattern :=
                    ui_move_additional_files_pattern_text st\<rparr>;
          c9 = c8\<lparr>delete_empty_dirs := ui_delete_empty_dirs_checked st\<rparr>;
          c10 = c9\<lparr>file_naming_scripts :=
                     editor_naming_scripts env (script_editor_page st)\<rparr>;
          c11 = c10\<lparr>selected_file_naming_script_id :=
                       editor_selected_script_id env (script_editor_page st)\<rparr>;
          w2 = w1\<lparr>enable_moving_action := move_files c11\<rparr>
      in (c11, w2))"

text \<open>
  \<^verbatim>\<open>__init__\<close>, from the widgets as \<^verbatim>\<open>setupUi\<close> and the editor's constructor leave
  them: the assignments to the page's attributes and the one call that changes a widget.
\<close>

definition init :: "('e, 's) env \<Rightarrow> ('e, 's) page \<Rightarrow> ('e, 's) page" where
  "init env st =
     (let st1 = st\<lparr>script_text := []\<rparr>;
          st2 = update_selector_from_editor env st1
      in st2\<lparr>current_row := - 1\<rparr>)"


subsection \<open>Sequences of calls\<close>

text \<open>
  \<^verbatim>\<open>load\<close> followed at once by \<^verbatim>\<open>save\<close>: the configuration that is written.
\<close>

definition load_then_save ::
  "('e, 's) env \<Rightarrow> 's setting \<Rightarrow> ('e, 's) page \<Rightarrow> window \<Rightarrow> 's setting" where
  "load_then_save env config st window = fst (save env (load env config st) config window)"

text \<open>
  The states the page can be in: as constructed, and after any call of \<^verbatim>\<open>load\<close>,
  of a slot or of a method that refreshes the preview, any call of a method of the editor
  (which may emit any of its signals), any edit of an option by the user, and any
  selection of a row of the "before" or the "after" list by the user. The methods left
  out of this file (\<^verbatim>\<open>test\<close>, \<^verbatim>\<open>check_formats\<close>, \<^verbatim>\<open>update_example_files\<close>,
  \<^verbatim>\<open>show_script_editing_page\<close>, \<^verbatim>\<open>move_files_to_browse\<close>) change the page only
  through these.
\<close>

inductive reachable :: "('e, 's) env \<Rightarrow> ('e, 's) page \<Rightarrow> bool" for env where
  constructed: "reachable env (init env st)"
| loaded: "reachable env st \<Longrightarrow> reachable env (load env config st)"
| previewed: "reachable env st \<Longrightarrow> reachable env (update_examples_from_local env st)"
| displayed: "reachable env st \<Longrightarrow> reachable env (display_examples env st)"
| editor_called: "reachable env st \<Longrightarrow> reachable env (on_editor env f st)"
| signalled: "reachable env st \<Longrightarrow> reachable env (ui_slot env sig st)"
| rename_toggled: "reachable env st \<Longrightarrow> reachable env (rename_files_setChecked env b st)"
| move_toggled: "reachable env st \<Longrightarrow> reachable env (move_files_setChecked env b st)"
| edited:
    "reachable env st \<Longrightarrow>
     reachable env
       (st\<lparr>ui_windows_compatibility_checked := w, ui_ascii_filenames_checked := a,
          ui_move_files_to_text := t, ui_move_additional_files_checked := m,
          ui_move_additional_files_pattern_text := p, ui_delete_empty_dirs_checked := d\<rparr>)"
| before_selected:
    "reachable env st \<Longrightarrow>
     reachable env
       (let (before, fired) = lw_setCurrentRow r (ui_example_filename_before st)
        in emit fired example_filename_before_itemSelectionChanged
             (st\<lparr>ui_example_filename_before := before\<rparr>))"
| after_selected:
    "reachable env st \<Longrightarrow>
     reachable env
       (let (after, fired) = lw_setCurrentRow r (ui_example_filename_after st)
        in emit fired example_filename_after_itemSelectionChanged
             (st\<lparr>ui_example_filename_after := after\<rparr>))"

text \<open>
  The option widgets of a page and nothing else: what a call leaves untouched when it
  works on the selector, the lists, the editor or the page's attributes only.
\<close>

definition option_widgets :: "('e, 's) page \<Rightarrow> (unit, unit) page" where
  "option_widgets st =
     \<lparr>script_text = [],
      current_row = 0,
      ui_windows_compatibility_checked = ui_windows_compatibility_checked st,
      ui_windows_compatibility_enabled = ui_windows_compatibility_enabled st,
      ui_ascii_filenames_checked = ui_ascii_filenames_checked st,
      ui_ascii_filenames_enabled = ui_ascii_filenames_enabled st,
      ui_rename_files_checked = ui_rename_files_checked st,
      ui_move_files_checked = ui_move_files_checked st,
      ui_move_files_to_text = ui_move_files_to_text st,
      ui_move_files_to_cursorPosition = ui_move_files_to_cursorPosition st,
      ui_move_files_to_enabled = ui_move_files_to_enabled st,
      ui_move_files_to_browse_enabled = ui_move_files_to_browse_enabled st,
      ui_move_additional_files_checked = ui_move_additional_files_checked st,
      ui_move_additional_files_enabled = ui_move_additional_files_enabled st,
      ui_move_additional_files_pattern_text = ui_move_additional_files_pattern_text st,
      ui_move_additional_files_pattern_enabled = ui_move_additional_files_pattern_enabled st,
      ui_delete_empty_dirs_checked = ui_delete_empty_dirs_checked st,
      ui_delete_empty_dirs_enabled = ui_delete_empty_dirs_enabled st,
      ui_open_script_editor_enabled = ui_open_script_editor_enabled st,
      ui_naming_script_selector =
        \<lparr>cb_items = [], cb_currentIndex = 0, cb_signalsBlocked = False\<rparr>,
      ui_example_filename_before =
        \<lparr>lw_items = [], lw_currentRow = 0, lw_signalsBlocked = False\<rparr>,
      ui_example_filename_after =
        \<lparr>lw_items = [], lw_currentRow = 0, lw_signalsBlocked = False\<rparr>,
      script_editor_page = (),
      emitted = []\<rparr>"


section \<open>A sample host and page\<close>

text \<open>
  A host that is not Windows, with no translation, a parser that rejects one pattern,
  and an editor with one preset script; a page as it is when first shown; a stored
  configuration and a main window; and a page whose "after" list has just had its
  fourth row selected by the user.
\<close>

definition sample_env :: "(unit, unit) env" where
  "sample_env =
     \<lparr>IS_WIN = False,
      gettext = (\<lambda>s. s),
      ScriptParser_eval =
        (\<lambda>s. if s = str ''$invalid('' then Inl (str ''Unexpected end of script'') else Inr s),
      enabledSlot = (\<lambda>b. b),
      editor_load = (\<lambda>config e. (e, [signal_selection_changed, signal_update])),
      editor_display_examples = (\<lambda>e. (e, [signal_update])),
      editor_get_script = (\<lambda>e. str ''%title%''),
      editor_naming_scripts = (\<lambda>e. []),
      editor_selected_script_id = (\<lambda>e. []),
      editor_preset_naming_scripts =
        (\<lambda>e. \<lparr>cb_items = [(str ''Default'', ())], cb_currentIndex = 0,
              cb_signalsBlocked = False\<rparr>),
      editor_preset_setCurrentIndex = (\<lambda>i e. (e, [signal_selection_changed])),
      editor_update_example_listboxes =
        (\<lambda>before after examples.
           (before\<lparr>lw_items := map fst examples, lw_currentRow := - 1\<rparr>,
            after\<lparr>lw_items := map snd examples, lw_currentRow := - 1\<rparr>,
            (if lw_currentRow before = - 1 then []
             else [example_filename_before_itemSelectionChanged]) @
            (if lw_currentRow after = - 1 then []
             else [example_filename_after_itemSelectionChanged]))),
      examples_update_examples = (\<lambda>override e. e),
      examples_get_examples = (\<lambda>e. [(str ''a.mp3'', str ''b.mp3'')])\<rparr>"

definition sample_page :: "(unit, unit) page" where
  "sample_page =
     \<lparr>script_text = [],
      current_row = - 1,
      ui_windows_compatibility_checked = True,
      ui_windows_compatibility_enabled = True,
      ui_ascii_filenames_checked = False,
      ui_ascii_filenames_enabled = True,
      ui_rename_files_checked = False,
      ui_move_files_checked = False,
      ui_move_files_to_text = [],
      ui_move_files_to_cursorPosition = 0,
      ui_move_files_to_enabled = True,
      ui_move_files_to_browse_enabled = True,
      ui_move_additional_files_checked = False,
      ui_move_additional_files_enabled = True,
      ui_move_additional_files_pattern_text = [],
      ui_move_additional_files_pattern_enabled = True,
      ui_delete_empty_dirs_checked = False,
      ui_delete_empty_dirs_enabled = True,
      ui_open_script_editor_enabled = True,
      ui_naming_script_selector =
        \<lparr>cb_items = [], cb_currentIndex = - 1, cb_signalsBlocked = False\<rparr>,
      ui_example_filename_before =
        \<lparr>lw_items = [], lw_currentRow = - 1, lw_signalsBlocked = False\<rparr>,
      ui_example_filename_after =
        \<lparr>lw_items = [], lw_currentRow = - 1, lw_signalsBlocked = False\<rparr>,
      script_editor_page = (),
      emitted = []\<rparr>"

definition sample_config :: "unit setting" where
  "sample_config =
     \<lparr>windows_compatibility = True,
      ascii_filenames = False,
      rename_files = True,
      file_naming_format = str '' %title% '',
      move_files = True,
      move_files_to = str ''/music/'',
      move_additional_files = False,
      move_additional_files_pattern = str ''*.jpg *.png'',
      delete_empty_dirs = True,
      file_naming_scripts = [],
      selected_file_naming_script_id = []\<rparr>"

definition sample_window :: window where
  "sample_window = \<lparr>enable_renaming_action = False, enable_moving_action = False\<rparr>"

definition sample_rows :: "(unit, unit) page" where
  "sample_rows =
     sample_page
       \<lparr>ui_example_filename_before :=
          \<lparr>lw_items = [str ''a.mp3'', str ''b.mp3'', str ''c.mp3'', str ''d.mp3''],
           lw_currentRow = - 1, lw_signalsBlocked = False\<rparr>,
        ui_example_filename_after :=
          \<lparr>lw_items = [str ''1 a.mp3'', str ''2 b.mp3'', str ''3 c.mp3'', str ''4 d.mp3''],
           lw_currentRow = 3, lw_signalsBlocked = False\<rparr>,
        emitted := [example_filename_after_itemSelectionChanged]\<rparr>"


section \<open>Validation\<close>

lemma dropWhile_all: "(\<forall>x\<in>set (dropWhile P s). P x) \<longleftrightarrow> (\<forall>x\<in>set s. P x)"
  by (induction s) auto

lemma strip_Nil_iff: "strip s = [] \<longleftrightarrow> (\<forall>c\<in>set s. isspace c)"
  by (simp add: strip_def dropWhile_eq_Nil_conv dropWhile_all)

lemma check_format_error_kind:
  "check_format env st = Inl e \<Longrightarrow> \<exists>m. e = ScriptCheckError [] m"
  by (auto simp: check_format_def split: sum.splits if_splits)

text \<open>
  C1. With an empty or whitespace-only naming format that the script parser accepts,
  \<^verbatim>\<open>check_format\<close> depends on the rename check box alone: checked, it raises
  the error "The file naming format must not be empty."; unchecked, it returns.
\<close>

theorem check_format_empty_pattern:
  assumes "\<forall>c\<in>set (script_text st). isspace c"
    and "ScriptParser_eval env (script_text st) = Inr r"
  shows "check_format env st =
           (if ui_rename_files_checked st
            then Inl (ScriptCheckError []
                   (gettext env (str ''The file naming format must not be empty.'')))
            else Inr ())"
  using assms by (simp add: check_format_def strip_Nil_iff)

theorem check_format_empty_pattern_witness:
  "check_format sample_env (sample_page\<lparr>script_text := str ''  '', ui_rename_files_checked := True\<rparr>) =
     Inl (ScriptCheckError [] (str ''The file naming format must not be empty.'')) \<and>
   check_format sample_env (sample_page\<lparr>script_text := [], ui_rename_files_checked := True\<rparr>) =
     Inl (ScriptCheckError [] (str ''The file naming format must not be empty.'')) \<and>
   check_format sample_env (sample_page\<lparr>script_text := [], ui_rename_files_checked := False\<rparr>) =
     Inr ()"
proof -
  let ?a = "sample_page\<lparr>script_text := str ''  '', ui_rename_files_checked := True\<rparr>"
  let ?b = "sample_page\<lparr>script_text := [], ui_rename_files_checked := True\<rparr>"
  let ?c = "sample_page\<lparr>script_text := [], ui_rename_files_checked := False\<rparr>"
  have sa: "\<forall>c\<in>set (script_text ?a). isspace c" by (simp add: str_def isspace_def)
  have ea: "ScriptParser_eval sample_env (script_text ?a) = Inr (str ''  '')"
    by (simp add: sample_env_def str_def)
  have sb: "\<forall>c\<in>set (script_text ?b). isspace c" by simp
  have eb: "ScriptParser_eval sample_env (script_text ?b) = Inr []"
    by (simp add: sample_env_def str_def)
  have sc: "\<forall>c\<in>set (script_text ?c). isspace c" by simp
  have ec: "ScriptParser_eval sample_env (script_text ?c) = Inr []"
    by (simp add: sample_env_def str_def)
  show ?thesis
    using check_format_empty_pattern [OF sa ea] check_format_empty_pattern [OF sb eb]
      check_format_empty_pattern [OF sc ec]
    by (simp add: sample_env_def)
qed

text \<open>
  C2. \<^verbatim>\<open>check_format\<close> hands the script text to the parser first, whatever the
  rename check box says: when the parser raises, \<^verbatim>\<open>check_format\<close> raises a
  \<^verbatim>\<open>ScriptCheckError\<close> with the parser's message; when the parser returns, the
  outcome does not depend on the value returned.
\<close>

theorem check_format_parser_first:
  "(ScriptParser_eval env (script_text st) = Inl m \<longrightarrow>
      check_format env st = Inl (ScriptCheckError [] m)) \<and>
   (ScriptParser_eval env (script_text st) = Inr r \<longrightarrow>
      check_format env st =
        (if ui_rename_files_checked st \<and> strip (script_text st) = []
         then Inl (ScriptCheckError []
                (gettext env (str ''The file naming format must not be empty.'')))
         else Inr ()))"
  by (simp add: check_format_def)

theorem check_format_parser_first_witness:
  "check_format sample_env
     (sample_page\<lparr>script_text := str ''$invalid('', ui_rename_files_checked := False\<rparr>) =
     Inl (ScriptCheckError [] (str ''Unexpected end of script'')) \<and>
   check_format sample_env
     (sample_page\<lparr>script_text := str ''%artist%/%title%'', ui_rename_files_checked := True\<rparr>) =
     Inr ()"
proof -
  let ?a = "sample_page\<lparr>script_text := str ''$invalid('', ui_rename_files_checked := False\<rparr>"
  let ?b = "sample_page\<lparr>script_text := str ''%artist%/%title%'',
              ui_rename_files_checked := True\<rparr>"
  have ea: "ScriptParser_eval sample_env (script_text ?a) = Inl (str ''Unexpected end of script'')"
    by (simp add: sample_env_def)
  have eb: "ScriptParser_eval sample_env (script_text ?b) = Inr (str ''%artist%/%title%'')"
    by (simp add: sample_env_def str_def)
  have nb: "strip (script_text ?b) \<noteq> []"
    by (simp add: strip_def str_def isspace_def)
  from check_format_parser_first [of sample_env ?a "str ''Unexpected end of script''" "[]"] ea
  have "check_format sample_env ?a = Inl (ScriptCheckError [] (str ''Unexpected end of script''))"
    by blast
  moreover
  from check_format_parser_first [of sample_env ?b "[]" "str ''%artist%/%title%''"] eb nb
  have "check_format sample_env ?b = Inr ()"
    by simp
  ultimately show ?thesis by simp
qed

text \<open>
  C3. The claim fails: with a pattern the parser rejects, the move check box checked
  and a blank destination, \<^verbatim>\<open>check\<close> raises the parser's error and nothing about
  the destination.
\<close>

theorem check_both_errors_counterexample:
  "ui_move_files_checked
     (sample_page\<lparr>script_text := str ''$invalid('', ui_move_files_checked := True,
        ui_move_files_to_text := str ''  ''\<rparr>) \<and>
   strip (ui_move_files_to_text
     (sample_page\<lparr>script_text := str ''$invalid('', ui_move_files_checked := True,
        ui_move_files_to_text := str ''  ''\<rparr>)) = [] \<and>
   check sample_env
     (sample_page\<lparr>script_text := str ''$invalid('', ui_move_files_checked := True,
        ui_move_files_to_text := str ''  ''\<rparr>) =
     Inl (ScriptCheckError [] (str ''Unexpected end of script'')) \<and>
   check sample_env
     (sample_page\<lparr>script_text := str ''$invalid('', ui_move_files_checked := True,
        ui_move_files_to_text := str ''  ''\<rparr>) \<noteq>
     Inl (OptionsCheckError (str ''Error'')
       (str ''The location to move files to must not be empty.''))"
  by (simp add: check_def check_format_def sample_env_def sample_page_def strip_def
      str_def isspace_def)

text \<open>
  C3, as amended. \<^verbatim>\<open>check\<close> stops at the first error: when \<^verbatim>\<open>check_format\<close>
  raises, \<^verbatim>\<open>check\<close> raises that same \<^verbatim>\<open>ScriptCheckError\<close>, whatever the move
  check box and the destination are.
\<close>

theorem check_stops_at_format_error:
  assumes "check_format env st = Inl e"
  shows "check env st = Inl e \<and> (\<exists>m. e = ScriptCheckError [] m)"
  using assms check_format_error_kind [OF assms] by (simp add: check_def)

theorem check_stops_at_format_error_witness:
  "check sample_env
     (sample_page\<lparr>script_text := [], ui_rename_files_checked := True,
        ui_move_files_checked := True\<rparr>) =
     Inl (ScriptCheckError [] (str ''The file naming format must not be empty.''))"
proof -
  let ?a = "sample_page\<lparr>script_text := [], ui_rename_files_checked := True,
              ui_move_files_checked := True\<rparr>"
  have "check_format sample_env ?a =
          Inl (ScriptCheckError [] (str ''The file naming format must not be empty.''))"
    by (simp add: check_format_def sample_env_def strip_def str_def)
  from check_stops_at_format_error [OF this] show ?thesis by simp
qed

text \<open>
  C4. When \<^verbatim>\<open>check_format\<close> returns, \<^verbatim>\<open>check\<close> raises the error "The location to
  move files to must not be empty." exactly when the move check box is checked and the
  destination text strips to the empty string, and returns otherwise.
\<close>

theorem check_destination:
  assumes "check_format env st = Inr ()"
  shows "(check env st =
            Inl (OptionsCheckError (gettext env (str ''Error''))
              (gettext env (str ''The location to move files to must not be empty.'')))
          \<longleftrightarrow> ui_move_files_checked st \<and> strip (ui_move_files_to_text st) = []) \<and>
         (check env st = Inr ()
          \<longleftrightarrow> \<not> (ui_move_files_checked st \<and> strip (ui_move_files_to_text st) = []))"
  using assms by (simp add: check_def)

theorem check_destination_witness:
  "check sample_env
     (sample_page\<lparr>ui_move_files_checked := True, ui_move_files_to_text := str ''  ''\<rparr>) =
     Inl (OptionsCheckError (str ''Error'')
       (str ''The location to move files to must not be empty.'')) \<and>
   check sample_env
     (sample_page\<lparr>ui_move_files_checked := True, ui_move_files_to_text := str ''/music''\<rparr>) =
     Inr () \<and>
   check sample_env
     (sample_page\<lparr>ui_move_files_checked := False, ui_move_files_to_text := str ''  ''\<rparr>) =
     Inr ()"
proof -
  let ?a = "sample_page\<lparr>ui_move_files_checked := True, ui_move_files_to_text := str ''  ''\<rparr>"
  let ?b = "sample_page\<lparr>ui_move_files_checked := True,
              ui_move_files_to_text := str ''/music''\<rparr>"
  let ?c = "sample_page\<lparr>ui_move_files_checked := False, ui_move_files_to_text := str ''  ''\<rparr>"
  have fa: "check_format sample_env ?a = Inr ()"
    by (simp add: check_format_def sample_env_def sample_page_def str_def)
  have fb: "check_format sample_env ?b = Inr ()"
    by (simp add: check_format_def sample_env_def sample_page_def str_def)
  have fc: "check_format sample_env ?c = Inr ()"
    by (simp add: check_format_def sample_env_def sample_page_def str_def)
  have sa: "strip (ui_move_files_to_text ?a) = []"
    by (simp add: strip_def str_def isspace_def)
  have sb: "strip (ui_move_files_to_text ?b) \<noteq> []"
    by (simp add: strip_def str_def isspace_def)
  show ?thesis
    using check_destination [OF fa] check_destination [OF fb] check_destination [OF fc] sa sb
    by (simp add: sample_env_def)
qed

section \<open>Load and save\<close>

subsection \<open>Calls that leave the option widgets alone\<close>

lemma on_selector_widgets [simp]: "option_widgets (on_selector f st) = option_widgets st"
  by (simp add: on_selector_def emit_def option_widgets_def split: prod.splits)

lemma fold_on_selector_widgets [simp]:
  "option_widgets (fold (\<lambda>i. on_selector (g i)) xs st) = option_widgets st"
  by (induction xs arbitrary: st) simp_all

lemma update_selector_from_editor_widgets [simp]:
  "option_widgets (update_selector_from_editor env st) = option_widgets st"
  by (simp add: update_selector_from_editor_def Let_def)

lemma display_examples_widgets [simp]:
  "option_widgets (display_examples env st) = option_widgets st"
  by (simp add: display_examples_def option_widgets_def Let_def split: prod.splits)

lemma editor_slot_widgets [simp]:
  "option_widgets (editor_slot env sig st) = option_widgets st"
  by (cases sig) (simp_all add: save_from_editor_def update_from_editor_def, simp add: option_widgets_def)

lemma fold_editor_slot_widgets [simp]:
  "option_widgets (fold (editor_slot env) sigs st) = option_widgets st"
  by (induction sigs arbitrary: st) simp_all

lemma on_editor_widgets [simp]: "option_widgets (on_editor env f st) = option_widgets st"
  by (simp add: on_editor_def split: prod.splits, simp add: option_widgets_def)

lemma update_selector_in_editor_widgets [simp]:
  "option_widgets (update_selector_in_editor env st) = option_widgets st"
  by (simp add: update_selector_in_editor_def)

lemma update_examples_from_local_widgets [simp]:
  "option_widgets (update_examples_from_local env st) = option_widgets st"
  by (simp add: update_examples_from_local_def Let_def, simp add: option_widgets_def)

lemma match_after_to_before_widgets [simp]:
  "option_widgets (match_after_to_before env st) = option_widgets st"
  by (simp add: match_after_to_before_def emit_def option_widgets_def split: prod.splits)

lemma match_before_to_after_widgets [simp]:
  "option_widgets (match_before_to_after env st) = option_widgets st"
  by (simp add: match_before_to_after_def emit_def option_widgets_def split: prod.splits)

lemma option_widgets_fields:
  "ui_windows_compatibility_checked st = ui_windows_compatibility_checked (option_widgets st)"
  "ui_windows_compatibility_enabled st = ui_windows_compatibility_enabled (option_widgets st)"
  "ui_ascii_filenames_checked st = ui_ascii_filenames_checked (option_widgets st)"
  "ui_rename_files_checked st = ui_rename_files_checked (option_widgets st)"
  "ui_move_files_checked st = ui_move_files_checked (option_widgets st)"
  "ui_move_files_to_text st = ui_move_files_to_text (option_widgets st)"
  "ui_move_additional_files_checked st = ui_move_additional_files_checked (option_widgets st)"
  "ui_move_additional_files_pattern_text st =
     ui_move_additional_files_pattern_text (option_widgets st)"
  "ui_delete_empty_dirs_checked st = ui_delete_empty_dirs_checked (option_widgets st)"
  by (simp_all add: option_widgets_def)

text \<open>What \<^verbatim>\<open>load\<close> leaves in the option widgets.\<close>

lemma load_widgets:
  "ui_windows_compatibility_checked (load env config st) =
     (if IS_WIN env then True else windows_compatibility config)"
  "IS_WIN env \<Longrightarrow> \<not> ui_windows_compatibility_enabled (load env config st)"
  "ui_ascii_filenames_checked (load env config st) = ascii_filenames config"
  "ui_rename_files_checked (load env config st) = rename_files config"
  "ui_move_files_checked (load env config st) = move_files config"
  "ui_move_files_to_text (load env config st) = move_files_to config"
  "ui_move_additional_files_checked (load env config st) = move_additional_files config"
  "ui_move_additional_files_pattern_text (load env config st) =
     move_additional_files_pattern config"
  "ui_delete_empty_dirs_checked (load env config st) = delete_empty_dirs config"
  by (simp_all add: option_widgets_fields [of "load env config st"],
      simp_all add: load_def Let_def,
      simp_all add: option_widgets_def rename_files_setChecked_def move_files_setChecked_def
        toggle_file_renaming_def toggle_file_moving_def toggle_file_naming_format_def Let_def)

subsection \<open>The script text, and what \<^verbatim>\<open>save\<close> writes\<close>

lemma on_selector_script_text [simp]:
  "script_text (on_selector f st) = script_text st"
  "script_editor_page (on_selector f st) = script_editor_page st"
  by (simp_all add: on_selector_def emit_def split: prod.splits)

lemma fold_on_selector_script_text [simp]:
  "script_text (fold (\<lambda>i. on_selector (g i)) xs st) = script_text st"
  "script_editor_page (fold (\<lambda>i. on_selector (g i)) xs st) = script_editor_page st"
  by (induction xs arbitrary: st) simp_all

lemma update_selector_from_editor_script_text [simp]:
  "script_text (update_selector_from_editor env st) = script_text st"
  "script_editor_page (update_selector_from_editor env st) = script_editor_page st"
  by (simp_all add: update_selector_from_editor_def Let_def)

lemma display_examples_script_text [simp]:
  "script_text (display_examples env st) = script_text st"
  "script_editor_page (display_examples env st) = script_editor_page st"
  by (simp_all add: display_examples_def Let_def split: prod.splits)

lemma editor_slot_script_text:
  "script_text (editor_slot env sig st) =
     (if sig = signal_save then editor_get_script env (script_editor_page st)
      else script_text st)"
  by (cases sig) (simp_all add: save_from_editor_def update_from_editor_def)

lemma fold_editor_slot_script_text:
  "signal_save \<notin> set sigs \<Longrightarrow> script_text (fold (editor_slot env) sigs st) = script_text st"
  by (induction sigs arbitrary: st) (auto simp: editor_slot_script_text)

lemma on_editor_script_text:
  "signal_save \<notin> set (snd (f (script_editor_page st))) \<Longrightarrow>
   script_text (on_editor env f st) = script_text st"
  by (auto simp: on_editor_def fold_editor_slot_script_text split: prod.splits)

lemma load_script_text:
  assumes "\<forall>e. signal_save \<notin> set (snd (editor_load env config e)) \<and>
               signal_save \<notin> set (snd (editor_display_examples env e))"
  shows "script_text (load env config st) = file_naming_format config"
  using assms
  by (simp add: load_def update_examples_from_local_def Let_def on_editor_script_text)

lemma save_fields:
  "windows_compatibility (fst (save env st config window)) = ui_windows_compatibility_checked st"
  "ascii_filenames (fst (save env st config window)) = ui_ascii_filenames_checked st"
  "rename_files (fst (save env st config window)) = ui_rename_files_checked st"
  "file_naming_format (fst (save env st config window)) = strip (script_text st)"
  "move_files (fst (save env st config window)) = ui_move_files_checked st"
  "move_files_to (fst (save env st config window)) =
     os_path_normpath (IS_WIN env) (ui_move_files_to_text st)"
  "move_additional_files (fst (save env st config window)) = ui_move_additional_files_checked st"
  "move_additional_files_pattern (fst (save env st config window)) =
     ui_move_additional_files_pattern_text st"
  "delete_empty_dirs (fst (save env st config window)) = ui_delete_empty_dirs_checked st"
  "file_naming_scripts (fst (save env st config window)) =
     editor_naming_scripts env (script_editor_page st)"
  "selected_file_naming_script_id (fst (save env st config window)) =
     editor_selected_script_id env (script_editor_page st)"
  "enable_renaming_action (snd (save env st config window)) = ui_rename_files_checked st"
  "enable_moving_action (snd (save env st config window)) = ui_move_files_checked st"
  by (simp_all add: save_def Let_def)

subsection \<open>Load, then save\<close>

text \<open>
  C5. The claim fails: a stored naming format with surrounding blanks and a stored
  destination with a trailing separator come back changed, and on Windows a stored
  \<^verbatim>\<open>windows_compatibility\<close> of false comes back true.
\<close>

theorem load_save_round_trip_counterexample:
  "file_naming_format sample_config = str '' %title% '' \<and>
   file_naming_format (load_then_save sample_env sample_config sample_page sample_window) =
     str ''%title%'' \<and>
   move_files_to sample_config = str ''/music/'' \<and>
   move_files_to (load_then_save sample_env sample_config sample_page sample_window) =
     str ''/music'' \<and>
   windows_compatibility (sample_config\<lparr>windows_compatibility := False\<rparr>) = False \<and>
   windows_compatibility
     (load_then_save (sample_env\<lparr>IS_WIN := True\<rparr>)
        (sample_config\<lparr>windows_compatibility := False\<rparr>) sample_page sample_window) = True"
proof -
  have a: "\<forall>e. signal_save \<notin> set (snd (editor_load sample_env sample_config e)) \<and>
               signal_save \<notin> set (snd (editor_display_examples sample_env e))"
    by (simp add: sample_env_def)
  have "strip (str '' %title% '') = str ''%title%''"
    by (simp add: strip_def str_def isspace_def)
  moreover have "file_naming_format
      (load_then_save sample_env sample_config sample_page sample_window) =
      strip (file_naming_format sample_config)"
    by (simp add: load_then_save_def save_fields load_script_text [OF a])
  ultimately have f: "file_naming_format
      (load_then_save sample_env sample_config sample_page sample_window) = str ''%title%''"
    by (simp add: sample_config_def)
  have "posixpath_normpath (str ''/music/'') = str ''/music''"
    by code_simp
  moreover have "move_files_to
      (load_then_save sample_env sample_config sample_page sample_window) =
      posixpath_normpath (move_files_to sample_config)"
    by (simp add: load_then_save_def save_fields load_widgets os_path_normpath_def
        sample_env_def)
  ultimately have m: "move_files_to
      (load_then_save sample_env sample_config sample_page sample_window) = str ''/music''"
    by (simp add: sample_config_def)
  have w: "windows_compatibility
     (load_then_save (sample_env\<lparr>IS_WIN := True\<rparr>)
        (sample_config\<lparr>windows_compatibility := False\<rparr>) sample_page sample_window) = True"
    by (simp add: load_then_save_def save_fields load_widgets)
  show ?thesis using f m w by (simp add: sample_config_def)
qed

text \<open>
  C5, as amended. \<^verbatim>\<open>load\<close> followed by \<^verbatim>\<open>save\<close> with nothing in between writes
  six options back as they were read; it writes \<^verbatim>\<open>windows_compatibility\<close> as read
  except on Windows, where it writes true; it writes \<^verbatim>\<open>move_files_to\<close> normalised
  by \<^verbatim>\<open>os.path.normpath\<close>; and, when the script editor hands over no script of its
  own while loading (no \<^verbatim>\<open>signal_save\<close>), it writes \<^verbatim>\<open>file_naming_format\<close>
  stripped of surrounding whitespace.
\<close>

theorem load_save_round_trip:
  "ascii_filenames (load_then_save env config st window) = ascii_filenames config \<and>
   rename_files (load_then_save env config st window) = rename_files config \<and>
   move_files (load_then_save env config st window) = move_files config \<and>
   move_additional_files (load_then_save env config st window) =
     move_additional_files config \<and>
   move_additional_files_pattern (load_then_save env config st window) =
     move_additional_files_pattern config \<and>
   delete_empty_dirs (load_then_save env config st window) = delete_empty_dirs config \<and>
   windows_compatibility (load_then_save env config st window) =
     (IS_WIN env \<or> windows_compatibility config) \<and>
   move_files_to (load_then_save env config st window) =
     os_path_normpath (IS_WIN env) (move_files_to config) \<and>
   ((\<forall>e. signal_save \<notin> set (snd (editor_load env config e)) \<and>
         signal_save \<notin> set (snd (editor_display_examples env e))) \<longrightarrow>
    file_naming_format (load_then_save env config st window) =
      strip (file_naming_format config))"
  by (simp add: load_then_save_def save_fields load_widgets load_script_text)

theorem load_save_round_trip_witness:
  "rename_files (load_then_save sample_env sample_config sample_page sample_window) = True \<and>
   move_additional_files_pattern
     (load_then_save sample_env sample_config sample_page sample_window) =
     str ''*.jpg *.png'' \<and>
   file_naming_format (load_then_save sample_env sample_config sample_page sample_window) =
     strip (str '' %title% '')"
proof -
  have a: "\<forall>e. signal_save \<notin> set (snd (editor_load sample_env sample_config e)) \<and>
               signal_save \<notin> set (snd (editor_display_examples sample_env e))"
    by (simp add: sample_env_def)
  show ?thesis
    using load_save_round_trip [of sample_env sample_config sample_page sample_window] a
    by (simp add: sample_config_def)
qed

subsection \<open>The Windows-compatibility box, the options written, the destination\<close>

text \<open>
  C6. On Windows \<^verbatim>\<open>load\<close> leaves the Windows-compatibility check box checked and
  disabled, whatever the configuration holds; on any other host it leaves the box
  checked exactly when the stored \<^verbatim>\<open>windows_compatibility\<close> is true.
\<close>

theorem load_windows_compatibility:
  "(IS_WIN env \<longrightarrow>
      ui_windows_compatibility_checked (load env config st) \<and>
      \<not> ui_windows_compatibility_enabled (load env config st)) \<and>
   (\<not> IS_WIN env \<longrightarrow>
      ui_windows_compatibility_checked (load env config st) = windows_compatibility config)"
  by (simp add: load_widgets)

theorem load_windows_compatibility_witness:
  "ui_windows_compatibility_checked
     (load (sample_env\<lparr>IS_WIN := True\<rparr>) (sample_config\<lparr>windows_compatibility := False\<rparr>)
        sample_page) \<and>
   \<not> ui_windows_compatibility_enabled
     (load (sample_env\<lparr>IS_WIN := True\<rparr>) (sample_config\<lparr>windows_compatibility := False\<rparr>)
        sample_page) \<and>
   \<not> ui_windows_compatibility_checked
     (load sample_env (sample_config\<lparr>windows_compatibility := False\<rparr>) sample_page)"
proof -
  have w: "IS_WIN (sample_env\<lparr>IS_WIN := True\<rparr>)" by simp
  have p: "\<not> IS_WIN sample_env" by (simp add: sample_env_def)
  show ?thesis
    using load_windows_compatibility [of "sample_env\<lparr>IS_WIN := True\<rparr>"
        "sample_config\<lparr>windows_compatibility := False\<rparr>" sample_page]
      load_windows_compatibility [of sample_env
        "sample_config\<lparr>windows_compatibility := False\<rparr>" sample_page] w p
    by simp
qed

text \<open>
  C7. \<^verbatim>\<open>save\<close> writes every one of the eleven options, each from the page and none
  from the configuration as it was, and leaves the two menu actions of the main window
  checked as \<^verbatim>\<open>rename_files\<close> and \<^verbatim>\<open>move_files\<close> are in the configuration it wrote.
\<close>

theorem save_writes_all_options:
  "fst (save env st config window) =
     \<lparr>windows_compatibility = ui_windows_compatibility_checked st,
      ascii_filenames = ui_ascii_filenames_checked st,
      rename_files = ui_rename_files_checked st,
      file_naming_format = strip (script_text st),
      move_files = ui_move_files_checked st,
      move_files_to = os_path_normpath (IS_WIN env) (ui_move_files_to_text st),
      move_additional_files = ui_move_additional_files_checked st,
      move_additional_files_pattern = ui_move_additional_files_pattern_text st,
      delete_empty_dirs = ui_delete_empty_dirs_checked st,
      file_naming_scripts = editor_naming_scripts env (script_editor_page st),
      selected_file_naming_script_id = editor_selected_script_id env (script_editor_page st)\<rparr> \<and>
   enable_renaming_action (snd (save env st config window)) =
     rename_files (fst (save env st config window)) \<and>
   enable_moving_action (snd (save env st config window)) =
     move_files (fst (save env st config window))"
  by (simp add: save_def Let_def)

theorem save_writes_all_options_witness:
  "fst (save sample_env
          (sample_page\<lparr>script_text := str '' %title% '', ui_rename_files_checked := True\<rparr>)
          sample_config sample_window) =
     \<lparr>windows_compatibility = True,
      ascii_filenames = False,
      rename_files = True,
      file_naming_format = str ''%title%'',
      move_files = False,
      move_files_to = str ''.'',
      move_additional_files = False,
      move_additional_files_pattern = [],
      delete_empty_dirs = False,
      file_naming_scripts = [],
      selected_file_naming_script_id = []\<rparr> \<and>
   enable_renaming_action
     (snd (save sample_env
          (sample_page\<lparr>script_text := str '' %title% '', ui_rename_files_checked := True\<rparr>)
          sample_config sample_window)) \<and>
   \<not> enable_moving_action
     (snd (save sample_env
          (sample_page\<lparr>script_text := str '' %title% '', ui_rename_files_checked := True\<rparr>)
          sample_config sample_window))"
proof -
  have s: "strip (str '' %title% '') = str ''%title%''"
    by (simp add: strip_def str_def isspace_def)
  have n: "os_path_normpath False [] = str ''.''"
    by (simp add: os_path_normpath_def posixpath_normpath_def curdir_def str_def)
  show ?thesis
    using save_writes_all_options [of sample_env
        "sample_page\<lparr>script_text := str '' %title% '', ui_rename_files_checked := True\<rparr>"
        sample_config sample_window] s n
    by (simp add: sample_env_def sample_page_def)
qed

subsection \<open>What \<^verbatim>\<open>os.path.normpath\<close> gives\<close>
























text \<open>
  A text that starts with a device prefix names a device or a literal path, and
  \<^verbatim>\<open>ntpath.normpath\<close> returns it as it is.
\<close>

lemma ntpath_normpath_device: "nt_device_path path \<Longrightarrow> ntpath_normpath path = path"
  by (simp add: ntpath_normpath_def nt_device_path_def)




section \<open>The preview's current row\<close>

lemma on_selector_current_row [simp]: "current_row (on_selector f st) = current_row st"
  by (simp add: on_selector_def emit_def split: prod.splits)

lemma fold_on_selector_current_row [simp]:
  "current_row (fold (\<lambda>i. on_selector (g i)) xs st) = current_row st"
  by (induction xs arbitrary: st) simp_all

lemma update_selector_from_editor_current_row [simp]:
  "current_row (update_selector_from_editor env st) = current_row st"
  by (simp add: update_selector_from_editor_def Let_def)

lemma display_examples_current_row [simp]: "current_row (display_examples env st) = - 1"
  by (simp add: display_examples_def Let_def split: prod.splits)

lemma editor_slot_current_row:
  "current_row st = - 1 \<Longrightarrow> current_row (editor_slot env sig st) = - 1"
  by (cases sig) (simp_all add: save_from_editor_def update_from_editor_def)

lemma fold_editor_slot_current_row:
  "current_row st = - 1 \<Longrightarrow> current_row (fold (editor_slot env) sigs st) = - 1"
  by (induction sigs arbitrary: st) (simp_all add: editor_slot_current_row)

lemma on_editor_current_row:
  "current_row st = - 1 \<Longrightarrow> current_row (on_editor env f st) = - 1"
  by (simp add: on_editor_def fold_editor_slot_current_row split: prod.splits)

lemma update_examples_from_local_current_row:
  "current_row st = - 1 \<Longrightarrow> current_row (update_examples_from_local env st) = - 1"
  by (simp add: update_examples_from_local_def Let_def on_editor_current_row)

lemma setChecked_current_row [simp]:
  "current_row (rename_files_setChecked env b st) = current_row st"
  "current_row (move_files_setChecked env b st) = current_row st"
  by (simp_all add: rename_files_setChecked_def move_files_setChecked_def
      toggle_file_renaming_def toggle_file_moving_def toggle_file_naming_format_def Let_def)

lemma load_current_row:
  "current_row st = - 1 \<Longrightarrow> current_row (load env config st) = - 1"
  by (simp add: load_def Let_def update_examples_from_local_current_row on_editor_current_row)

lemma match_current_row [simp]:
  "current_row (match_after_to_before env st) = current_row st"
  "current_row (match_before_to_after env st) = current_row st"
  by (simp_all add: match_after_to_before_def match_before_to_after_def emit_def
      split: prod.splits)

lemma ui_slot_current_row:
  "current_row st = - 1 \<Longrightarrow> current_row (ui_slot env sig st) = - 1"
  by (cases sig) (simp_all add: update_selector_in_editor_def on_editor_current_row)

lemma reachable_current_row: "reachable env st \<Longrightarrow> current_row st = - 1"
proof (induction rule: reachable.induct)
  case (constructed st)
  show ?case by (simp add: init_def Let_def)
next
  case (before_selected st r)
  then show ?case by (simp add: emit_def split: prod.splits)
next
  case (after_selected st r)
  then show ?case by (simp add: emit_def split: prod.splits)
qed (simp_all add: load_current_row update_examples_from_local_current_row
    on_editor_current_row ui_slot_current_row)

text \<open>
  C10. The page's \<^verbatim>\<open>current_row\<close> is \<open>-1\<close> when \<^verbatim>\<open>__init__\<close> returns, and
  \<^verbatim>\<open>display_examples\<close> sets it to \<open>-1\<close> whatever it was, with the lists rendered
  from the state that already holds \<open>-1\<close>; so it is \<open>-1\<close> in every state the page
  reaches.
\<close>

theorem current_row_cleared:
  "current_row (init env st0) = - 1 \<and>
   current_row (display_examples env st) = - 1 \<and>
   display_examples env st = display_examples env (st\<lparr>current_row := - 1\<rparr>) \<and>
   (reachable env st \<longrightarrow> current_row st = - 1)"
  by (simp add: reachable_current_row) (simp add: init_def display_examples_def Let_def)

theorem current_row_cleared_witness:
  "current_row
     (update_examples_from_local sample_env
        (load sample_env sample_config (init sample_env sample_page))) = - 1"
proof -
  have "reachable sample_env
     (update_examples_from_local sample_env
        (load sample_env sample_config (init sample_env sample_page)))"
    by (intro reachable.previewed reachable.loaded reachable.constructed)
  with current_row_cleared [of sample_env sample_page
      "update_examples_from_local sample_env
        (load sample_env sample_config (init sample_env sample_page))"]
  show ?thesis by blast
qed

section \<open>Selection synchronisation\<close>

subsection \<open>Signals emitted while the selector is rebuilt\<close>

lemma on_selector_selector:
  "ui_naming_script_selector (on_selector f st) = fst (f (ui_naming_script_selector st))"
  by (cases "f (ui_naming_script_selector st)") (simp add: on_selector_def emit_def)

lemma on_selector_emitted:
  "emitted (on_selector f st) =
     emitted st @
     (if snd (f (ui_naming_script_selector st))
      then [naming_script_selector_currentIndexChanged] else [])"
  by (cases "f (ui_naming_script_selector st)") (simp add: on_selector_def emit_def)

lemma cb_ops_blocked:
  "cb_signalsBlocked cb \<Longrightarrow> \<not> snd (cb_clear cb) \<and> cb_signalsBlocked (fst (cb_clear cb))"
  "cb_signalsBlocked cb \<Longrightarrow>
     \<not> snd (cb_addItem t d cb) \<and> cb_signalsBlocked (fst (cb_addItem t d cb))"
  "cb_signalsBlocked cb \<Longrightarrow>
     \<not> snd (cb_setCurrentIndex i cb) \<and> cb_signalsBlocked (fst (cb_setCurrentIndex i cb))"
  by (simp_all add: cb_clear_def cb_addItem_def cb_setCurrentIndex_def Let_def)

lemma fold_addItem_blocked:
  "cb_signalsBlocked (ui_naming_script_selector st) \<Longrightarrow>
   emitted (fold (\<lambda>i. on_selector (cb_addItem (t i) (d i))) xs st) = emitted st \<and>
   cb_signalsBlocked
     (ui_naming_script_selector (fold (\<lambda>i. on_selector (cb_addItem (t i) (d i))) xs st))"
  by (induction xs arbitrary: st)
    (simp_all add: on_selector_selector on_selector_emitted cb_ops_blocked)

lemma update_selector_from_editor_emitted:
  "emitted (update_selector_from_editor env st) = emitted st"
proof -
  let ?preset = "editor_preset_naming_scripts env (script_editor_page st)"
  let ?st1 = "on_selector (\<lambda>cb. (cb_blockSignals True cb, False)) st"
  let ?st2 = "on_selector cb_clear ?st1"
  let ?st3 = "fold (\<lambda>i. on_selector
                   (cb_addItem (fst (cb_items ?preset ! i)) (snd (cb_items ?preset ! i))))
                  [0..<length (cb_items ?preset)] ?st2"
  let ?st4 = "on_selector (cb_setCurrentIndex (cb_currentIndex ?preset)) ?st3"
  have 1: "emitted ?st1 = emitted st" "cb_signalsBlocked (ui_naming_script_selector ?st1)"
    by (simp_all add: on_selector_selector on_selector_emitted cb_blockSignals_def)
  have 2: "emitted ?st2 = emitted st" "cb_signalsBlocked (ui_naming_script_selector ?st2)"
    using 1 by (simp_all add: on_selector_selector on_selector_emitted cb_ops_blocked)
  have 3: "emitted ?st3 = emitted st" "cb_signalsBlocked (ui_naming_script_selector ?st3)"
    using fold_addItem_blocked [OF 2(2), of "\<lambda>i. fst (cb_items ?preset ! i)"
        "\<lambda>i. snd (cb_items ?preset ! i)" "[0..<length (cb_items ?preset)]"] 2(1)
    by simp_all
  have 4: "emitted ?st4 = emitted st"
    using 3 by (simp add: on_selector_emitted cb_ops_blocked)
  have "update_selector_from_editor env st =
          on_selector (\<lambda>cb. (cb_blockSignals False cb, False)) ?st4"
    by (simp add: update_selector_from_editor_def Let_def)
  with 4 show ?thesis
    by (simp add: on_selector_emitted)
qed

lemma fold_addItem_items:
  "cb_items (ui_naming_script_selector
     (fold (\<lambda>i. on_selector (cb_addItem (t i) (d i))) xs st)) =
   cb_items (ui_naming_script_selector st) @ map (\<lambda>i. (t i, d i)) xs"
  by (induction xs arbitrary: st)
    (simp_all add: on_selector_selector cb_addItem_def Let_def)

lemma nth_pairs: "map (\<lambda>i. (fst (xs ! i), snd (xs ! i))) [0..<length xs] = xs"
  by (simp add: map_nth)

lemma update_selector_from_editor_selector:
  "ui_naming_script_selector (update_selector_from_editor env st) =
     (let preset = editor_preset_naming_scripts env (script_editor_page st)
      in \<lparr>cb_items = cb_items preset,
          cb_currentIndex =
            (if 0 \<le> cb_currentIndex preset \<and>
                cb_currentIndex preset < int (length (cb_items preset))
             then cb_currentIndex preset else - 1),
          cb_signalsBlocked = False\<rparr>)"
proof -
  let ?preset = "editor_preset_naming_scripts env (script_editor_page st)"
  let ?st3 = "fold (\<lambda>i. on_selector
                   (cb_addItem (fst (cb_items ?preset ! i)) (snd (cb_items ?preset ! i))))
                  [0..<length (cb_items ?preset)]
                  (on_selector cb_clear
                     (on_selector (\<lambda>cb. (cb_blockSignals True cb, False)) st))"
  let ?st2 = "on_selector cb_clear
                (on_selector (\<lambda>cb. (cb_blockSignals True cb, False)) st)"
  have "cb_items (ui_naming_script_selector ?st3) =
          cb_items (ui_naming_script_selector ?st2) @
          map (\<lambda>i. (fst (cb_items ?preset ! i), snd (cb_items ?preset ! i)))
            [0..<length (cb_items ?preset)]"
    by (rule fold_addItem_items)
  also have "\<dots> = cb_items ?preset"
    by (simp only: nth_pairs) (simp add: on_selector_selector cb_clear_def)
  finally have items: "cb_items (ui_naming_script_selector ?st3) = cb_items ?preset" .
  have "ui_naming_script_selector (update_selector_from_editor env st) =
          cb_blockSignals False
            (fst (cb_setCurrentIndex (cb_currentIndex ?preset)
               (ui_naming_script_selector ?st3)))"
    by (simp add: update_selector_from_editor_def Let_def on_selector_selector)
  then show ?thesis
    using items
    by (simp add: cb_blockSignals_def cb_setCurrentIndex_def Let_def)
qed

subsection \<open>Signals emitted by the slots\<close>

lemma list_signals_no_selector:
  "naming_script_selector_currentIndexChanged \<notin> set (list_signals sigs)"
  by (auto simp: list_signals_def)

lemma display_examples_emitted:
  "\<exists>sigs. emitted (display_examples env st) = emitted st @ sigs \<and>
          naming_script_selector_currentIndexChanged \<notin> set sigs"
  by (auto simp: display_examples_def Let_def list_signals_no_selector split: prod.splits)

lemma editor_slot_emitted:
  "\<exists>sigs. emitted (editor_slot env sig st) = emitted st @ sigs \<and>
          naming_script_selector_currentIndexChanged \<notin> set sigs"
  by (cases sig)
    (simp_all add: save_from_editor_def update_from_editor_def
      update_selector_from_editor_emitted display_examples_emitted)

lemma fold_editor_slot_emitted:
  "\<exists>sigs'. emitted (fold (editor_slot env) sigs st) = emitted st @ sigs' \<and>
           naming_script_selector_currentIndexChanged \<notin> set sigs'"
proof (induction sigs arbitrary: st)
  case Nil
  show ?case by simp
next
  case (Cons sig sigs)
  obtain xs where xs: "emitted (editor_slot env sig st) = emitted st @ xs"
    "naming_script_selector_currentIndexChanged \<notin> set xs"
    using editor_slot_emitted by blast
  obtain ys where ys: "emitted (fold (editor_slot env) sigs (editor_slot env sig st)) =
      emitted (editor_slot env sig st) @ ys"
    "naming_script_selector_currentIndexChanged \<notin> set ys"
    using Cons.IH by blast
  show ?case
    using xs ys by (intro exI [of _ "xs @ ys"]) simp
qed

lemma on_editor_emitted:
  "\<exists>sigs. emitted (on_editor env f st) = emitted st @ sigs \<and>
          naming_script_selector_currentIndexChanged \<notin> set sigs"
proof (cases "f (script_editor_page st)")
  case (Pair e sigs)
  with fold_editor_slot_emitted [of env sigs "st\<lparr>script_editor_page := e\<rparr>"]
  show ?thesis by (simp add: on_editor_def)
qed

lemma update_selector_in_editor_emitted:
  "\<exists>sigs. emitted (update_selector_in_editor env st) = emitted st @ sigs \<and>
          naming_script_selector_currentIndexChanged \<notin> set sigs"
  by (simp add: update_selector_in_editor_def on_editor_emitted)

lemma synchronize_quiet:
  "snd (synchronize_selected_example_lines r source target) = False"
  by (simp add: synchronize_selected_example_lines_def lw_setCurrentRow_def
      lw_blockSignals_def Let_def)

lemma synchronize_row:
  "lw_currentRow (fst (synchronize_selected_example_lines r source target)) =
     (if 0 \<le> lw_currentRow source \<and> lw_currentRow source < int (length (lw_items target))
      then lw_currentRow source else - 1)"
  by (simp add: synchronize_selected_example_lines_def lw_setCurrentRow_def
      lw_blockSignals_def Let_def)

lemma match_emitted [simp]:
  "emitted (match_after_to_before env st) = emitted st"
  "emitted (match_before_to_after env st) = emitted st"
  using synchronize_quiet [of "current_row st" "ui_example_filename_before st"
      "ui_example_filename_after st"]
    synchronize_quiet [of "current_row st" "ui_example_filename_after st"
      "ui_example_filename_before st"]
  by (auto simp: match_after_to_before_def match_before_to_after_def emit_def
      split: prod.splits)

lemma match_rows:
  "lw_currentRow (ui_example_filename_after (match_after_to_before env st)) =
     (if 0 \<le> lw_currentRow (ui_example_filename_before st) \<and>
         lw_currentRow (ui_example_filename_before st) <
           int (length (lw_items (ui_example_filename_after st)))
      then lw_currentRow (ui_example_filename_before st) else - 1)"
  "lw_currentRow (ui_example_filename_before (match_before_to_after env st)) =
     (if 0 \<le> lw_currentRow (ui_example_filename_after st) \<and>
         lw_currentRow (ui_example_filename_after st) <
           int (length (lw_items (ui_example_filename_before st)))
      then lw_currentRow (ui_example_filename_after st) else - 1)"
  using synchronize_row [of "current_row st" "ui_example_filename_before st"
      "ui_example_filename_after st"]
    synchronize_row [of "current_row st" "ui_example_filename_after st"
      "ui_example_filename_before st"]
  by (auto simp: match_after_to_before_def match_before_to_after_def emit_def
      split: prod.splits)

text \<open>
  A queue that holds signals of the two lists only is delivered in as many slots as it
  holds signals.
\<close>

lemma deliver_lists:
  "naming_script_selector_currentIndexChanged \<notin> set (emitted st) \<Longrightarrow>
   \<exists>st'. deliver (length (emitted st) + fuel) env st = Some (st', length (emitted st)) \<and>
         emitted st' = []"
proof (induction "emitted st" arbitrary: st)
  case Nil
  then show ?case by (subst deliver.simps) simp
next
  case (Cons sig sigs)
  let ?st1 = "ui_slot env sig (st\<lparr>emitted := sigs\<rparr>)"
  from Cons.hyps(2) Cons.prems
  have sig: "sig \<noteq> naming_script_selector_currentIndexChanged"
    and sigs: "naming_script_selector_currentIndexChanged \<notin> set sigs"
    by (metis list.set_intros(1), metis list.set_intros(2))
  from sig have e: "emitted ?st1 = sigs"
    by (cases sig) simp_all
  with Cons.hyps(1) [of ?st1] sigs
  obtain st' where st': "deliver (length sigs + fuel) env ?st1 = Some (st', length sigs)"
    "emitted st' = []"
    by auto
  have "deliver (length (emitted st) + fuel) env st =
          map_option (\<lambda>(st', n). (st', Suc n)) (deliver (length sigs + fuel) env ?st1)"
    using Cons.hyps(2) [symmetric] by (subst deliver.simps) simp
  with st' Cons.hyps(2) [symmetric] show ?case by simp
qed

lemma deliver_list_signal:
  "deliver (Suc fuel) env (st\<lparr>emitted := [example_filename_before_itemSelectionChanged]\<rparr>) =
     Some (match_after_to_before env (st\<lparr>emitted := []\<rparr>), 1)"
  "deliver (Suc fuel) env (st\<lparr>emitted := [example_filename_after_itemSelectionChanged]\<rparr>) =
     Some (match_before_to_after env (st\<lparr>emitted := []\<rparr>), 1)"
proof -
  have "deliver fuel env (match_after_to_before env (st\<lparr>emitted := []\<rparr>)) =
          Some (match_after_to_before env (st\<lparr>emitted := []\<rparr>), 0)"
    by (subst deliver.simps) simp
  then show "deliver (Suc fuel) env
      (st\<lparr>emitted := [example_filename_before_itemSelectionChanged]\<rparr>) =
     Some (match_after_to_before env (st\<lparr>emitted := []\<rparr>), 1)"
    by (subst deliver.simps) simp
  have "deliver fuel env (match_before_to_after env (st\<lparr>emitted := []\<rparr>)) =
          Some (match_before_to_after env (st\<lparr>emitted := []\<rparr>), 0)"
    by (subst deliver.simps) simp
  then show "deliver (Suc fuel) env
      (st\<lparr>emitted := [example_filename_after_itemSelectionChanged]\<rparr>) =
     Some (match_before_to_after env (st\<lparr>emitted := []\<rparr>), 1)"
    by (subst deliver.simps) simp
qed

lemma deliver_selector_signal:
  "naming_script_selector_currentIndexChanged \<notin>
     set (emitted (update_selector_in_editor env (st\<lparr>emitted := []\<rparr>)))"
  "\<exists>st'. deliver (Suc (length (emitted (update_selector_in_editor env (st\<lparr>emitted := []\<rparr>))) + fuel))
           env (st\<lparr>emitted := [naming_script_selector_currentIndexChanged]\<rparr>) =
         Some (st', Suc (length (emitted (update_selector_in_editor env (st\<lparr>emitted := []\<rparr>))))) \<and>
         emitted st' = []"
proof -
  let ?st1 = "update_selector_in_editor env (st\<lparr>emitted := []\<rparr>)"
  show 1: "naming_script_selector_currentIndexChanged \<notin> set (emitted ?st1)"
    using update_selector_in_editor_emitted [of env "st\<lparr>emitted := []\<rparr>"] by auto
  from deliver_lists [OF 1, of fuel env]
  obtain st' where st': "deliver (length (emitted ?st1) + fuel) env ?st1 =
      Some (st', length (emitted ?st1))" "emitted st' = []"
    by blast
  have "deliver (Suc (length (emitted ?st1) + fuel)) env
          (st\<lparr>emitted := [naming_script_selector_currentIndexChanged]\<rparr>) =
        map_option (\<lambda>(st', n). (st', Suc n)) (deliver (length (emitted ?st1) + fuel) env ?st1)"
    by (subst deliver.simps) simp
  with st' show "\<exists>st'. deliver (Suc (length (emitted ?st1) + fuel))
           env (st\<lparr>emitted := [naming_script_selector_currentIndexChanged]\<rparr>) =
         Some (st', Suc (length (emitted ?st1))) \<and> emitted st' = []"
    by simp
qed

text \<open>
  C8. Rebuilding the selector from the editor emits no \<^verbatim>\<open>currentIndexChanged\<close>,
  whatever the selector held and whether or not its signals were blocked before, and
  leaves it with the editor's items and current index and with its signals unblocked.
  Matching one example list to the other sets the other list's row and emits no
  \<^verbatim>\<open>itemSelectionChanged\<close>. So the delivery of one selection signal of a list runs
  exactly one slot and then stops; and the delivery of one \<^verbatim>\<open>currentIndexChanged\<close>
  of the selector runs \<^verbatim>\<open>update_selector_in_editor\<close>, which emits no
  \<^verbatim>\<open>currentIndexChanged\<close> again, and ends after the slots of the list signals that the
  preview's refresh may have emitted.
\<close>

theorem selection_sync_no_echo:
  "emitted (update_selector_from_editor env st) = emitted st \<and>
   ui_naming_script_selector (update_selector_from_editor env st) =
     (let preset = editor_preset_naming_scripts env (script_editor_page st)
      in \<lparr>cb_items = cb_items preset,
          cb_currentIndex =
            (if 0 \<le> cb_currentIndex preset \<and>
                cb_currentIndex preset < int (length (cb_items preset))
             then cb_currentIndex preset else - 1),
          cb_signalsBlocked = False\<rparr>) \<and>
   emitted (match_after_to_before env st) = emitted st \<and>
   lw_currentRow (ui_example_filename_after (match_after_to_before env st)) =
     (if 0 \<le> lw_currentRow (ui_example_filename_before st) \<and>
         lw_currentRow (ui_example_filename_before st) <
           int (length (lw_items (ui_example_filename_after st)))
      then lw_currentRow (ui_example_filename_before st) else - 1) \<and>
   emitted (match_before_to_after env st) = emitted st \<and>
   lw_currentRow (ui_example_filename_before (match_before_to_after env st)) =
     (if 0 \<le> lw_currentRow (ui_example_filename_after st) \<and>
         lw_currentRow (ui_example_filename_after st) <
           int (length (lw_items (ui_example_filename_before st)))
      then lw_currentRow (ui_example_filename_after st) else - 1) \<and>
   deliver (Suc fuel) env (st\<lparr>emitted := [example_filename_before_itemSelectionChanged]\<rparr>) =
     Some (match_after_to_before env (st\<lparr>emitted := []\<rparr>), 1) \<and>
   deliver (Suc fuel) env (st\<lparr>emitted := [example_filename_after_itemSelectionChanged]\<rparr>) =
     Some (match_before_to_after env (st\<lparr>emitted := []\<rparr>), 1) \<and>
   naming_script_selector_currentIndexChanged \<notin>
     set (emitted (update_selector_in_editor env (st\<lparr>emitted := []\<rparr>))) \<and>
   (\<exists>st'. deliver
            (Suc (length (emitted (update_selector_in_editor env (st\<lparr>emitted := []\<rparr>))) + fuel))
            env (st\<lparr>emitted := [naming_script_selector_currentIndexChanged]\<rparr>) =
          Some (st',
            Suc (length (emitted (update_selector_in_editor env (st\<lparr>emitted := []\<rparr>))))) \<and>
          emitted st' = [])"
  using deliver_selector_signal(1) [of env st] deliver_selector_signal(2) [of env st fuel]
  by (simp add: update_selector_from_editor_emitted update_selector_from_editor_selector
      match_rows deliver_list_signal)

theorem selection_sync_no_echo_witness:
  "map_option
     (\<lambda>(st, n). (lw_currentRow (ui_example_filename_before st), emitted st, n))
     (deliver 1 sample_env sample_rows) = Some (3, [], 1)"
proof -
  have s: "sample_rows\<lparr>emitted := [example_filename_after_itemSelectionChanged]\<rparr> = sample_rows"
    by (simp add: sample_rows_def)
  have b: "lw_currentRow (ui_example_filename_after (sample_rows\<lparr>emitted := []\<rparr>)) = 3"
    "length (lw_items (ui_example_filename_before (sample_rows\<lparr>emitted := []\<rparr>))) = 4"
    by (simp_all add: sample_rows_def)
  show ?thesis
    using selection_sync_no_echo [of sample_env "sample_rows\<lparr>emitted := []\<rparr>" 0]
      selection_sync_no_echo [of sample_env sample_rows 0] s b
    by simp
qed

end
